theory Spec2Isabelle
  imports Complex_Main
begin

section \<open>JavaScript strings and truthiness\<close>

text \<open>
  A JavaScript string is modelled as a HOL \<^typ>\<open>string\<close>; each \<^typ>\<open>char\<close> stands for
  one code unit in the range U+0000 .. U+00FF (Latin-1). On that range the functions below
  are the ECMAScript ones: \<open>String.prototype.toLowerCase\<close> maps A-Z and the accented
  capitals U+00C0 .. U+00DE (without the multiplication sign U+00D7) to the code unit 32
  above, \<open>trim\<close> strips WhiteSpace and LineTerminator code units from both ends, and
  \<open>includes\<close> is the contiguous-substring test (true for the empty needle).
\<close>

definition isWhiteSpace :: "char \<Rightarrow> bool" where
  "isWhiteSpace c = (of_char c \<in> {9, 10, 11, 12, 13, 32, 160 :: nat})"

definition trim :: "string \<Rightarrow> string" where
  "trim s = rev (dropWhile isWhiteSpace (rev (dropWhile isWhiteSpace s)))"

definition toLowerChar :: "char \<Rightarrow> char" where
  "toLowerChar c =
     (let n = (of_char c :: nat) in
      if (65 \<le> n \<and> n \<le> 90) \<or> (192 \<le> n \<and> n \<le> 222 \<and> n \<noteq> 215)
      then char_of (n + 32) else c)"

definition toLowerCase :: "string \<Rightarrow> string" where
  "toLowerCase s = map toLowerChar s"

fun startsWith :: "string \<Rightarrow> string \<Rightarrow> bool" where
  "startsWith s [] = True"
| "startsWith [] (c # cs) = False"
| "startsWith (x # xs) (c # cs) = (x = c \<and> startsWith xs cs)"

fun includes_str :: "string \<Rightarrow> string \<Rightarrow> bool" where
  "includes_str [] needle = (needle = [])"
| "includes_str (x # xs) needle = (startsWith (x # xs) needle \<or> includes_str xs needle)"

text \<open>
  A value read from storage, a prompt or a response field is \<open>string | null\<close>:
  \<open>None\<close> is \<open>null\<close>/\<open>undefined\<close>. Both \<open>null\<close> and the empty string are falsy.
\<close>

definition truthy :: "string option \<Rightarrow> bool" where
  "truthy v = (case v of None \<Rightarrow> False | Some s \<Rightarrow> s \<noteq> [])"

text \<open>\<open>a || b\<close> on an optional string and a string default.\<close>

definition or_else :: "string option \<Rightarrow> string \<Rightarrow> string" where
  "or_else v d = (case v of None \<Rightarrow> d | Some s \<Rightarrow> if s = [] then d else s)"

section \<open>Public catalog view (EventsList)\<close>

text \<open>
  The catalog's \<open>Event\<close> interface. The objects come from \<open>GET /events\<close>; the client
  declares and reads only these fields. The record is extensible, so the same client code
  runs on server objects that carry more fields.
\<close>

record catalog_event =
  ce_id :: string
  ce_title :: string
  ce_description :: string
  ce_date :: string
  ce_location :: string
  ce_category :: string
  ce_organizer :: "string option"
  ce_images :: "string list"

text \<open>
  The server-side entity (the organizer's and the admin's \<open>Event\<close> interfaces) also has an
  approval status and a publication flag; the catalog code never reads them.
\<close>

datatype approval_status = Pending | Approved | Rejected

record server_event = catalog_event +
  approvalStatus :: approval_status
  published :: bool

record 'e catalog_state =
  cs_searchTerm :: string
  cs_events :: "'e list"
  cs_loading :: bool
  cs_error :: "string option"
  cs_selectedCategory :: string

text \<open>
  What \<open>api.get('/events')\<close> can produce: a resolved response with
  \<open>data.success\<close>, \<open>data.data\<close>, \<open>data.count\<close> and \<open>data.message\<close>, or a thrown
  error carrying \<open>error.response?.data?.message\<close>.
\<close>

datatype 'e fetch_response =
  FetchResolved bool "'e list option" "nat option" "string option"
| FetchThrown "string option"

datatype toast = ToastError string | ToastSuccess string

fun fetchApprovedEvents ::
  "'e fetch_response \<Rightarrow> 'e catalog_state \<Rightarrow> 'e catalog_state \<times> toast list" where
  "fetchApprovedEvents (FetchResolved success dat cnt msg) st =
     (if success
      then (st\<lparr>cs_events := (case dat of Some xs \<Rightarrow> xs | None \<Rightarrow> []),
               cs_error := (if cnt = Some 0
                            then Some ''No approved events found. Please check back later.''
                            else None),
               cs_loading := False\<rparr>, [])
      else (st\<lparr>cs_error := Some (or_else msg ''Failed to load events''),
               cs_loading := False\<rparr>,
            [ToastError (or_else msg ''Failed to load events'')]))"
| "fetchApprovedEvents (FetchThrown msg) st =
     (st\<lparr>cs_error := Some (or_else msg ''An error occurred while fetching events''),
         cs_loading := False\<rparr>,
      [ToastError ''Failed to load events. Please try again later.''])"

definition matchesSearch :: "string \<Rightarrow> 'a catalog_event_scheme \<Rightarrow> bool" where
  "matchesSearch searchTerm event =
     (includes_str (toLowerCase (ce_title event)) (toLowerCase searchTerm) \<or>
      includes_str (toLowerCase (ce_description event)) (toLowerCase searchTerm) \<or>
      includes_str (toLowerCase (ce_location event)) (toLowerCase searchTerm) \<or>
      (case ce_organizer event of
         None \<Rightarrow> False
       | Some nm \<Rightarrow> includes_str (toLowerCase nm) (toLowerCase searchTerm)))"

definition matchesCategory :: "string \<Rightarrow> 'a catalog_event_scheme \<Rightarrow> bool" where
  "matchesCategory selectedCategory event =
     (selectedCategory = ''all'' \<or> ce_category event = selectedCategory)"

definition filteredEvents ::
  "'a catalog_event_scheme catalog_state \<Rightarrow> 'a catalog_event_scheme list" where
  "filteredEvents st =
     filter (\<lambda>event. matchesSearch (cs_searchTerm st) event \<and>
                      matchesCategory (cs_selectedCategory st) event)
            (cs_events st)"

text \<open>
  The specification's wording of the search: the term occurs in the text as a contiguous
  substring, up to letter case.
\<close>

definition spec_ci_substring :: "string \<Rightarrow> string \<Rightarrow> bool" where
  "spec_ci_substring needle hay =
     (\<exists>p m t. hay = p @ m @ t \<and> toLowerCase m = toLowerCase needle)"

definition spec_matches :: "string \<Rightarrow> string \<Rightarrow> 'a catalog_event_scheme \<Rightarrow> bool" where
  "spec_matches searchTerm selectedCategory event =
     ((spec_ci_substring searchTerm (ce_title event) \<or>
       spec_ci_substring searchTerm (ce_description event) \<or>
       spec_ci_substring searchTerm (ce_location event) \<or>
       (\<exists>nm. ce_organizer event = Some nm \<and> spec_ci_substring searchTerm nm)) \<and>
      (selectedCategory = ''all'' \<or> ce_category event = selectedCategory))"

definition jazz_night :: catalog_event where
  "jazz_night = \<lparr>ce_id = ''1'', ce_title = ''Jazz Night'', ce_description = '''',
     ce_date = '''', ce_location = '''', ce_category = ''music'',
     ce_organizer = None, ce_images = []\<rparr>"

definition food_fest :: catalog_event where
  "food_fest = \<lparr>ce_id = ''2'', ce_title = ''Food Fest'', ce_description = '''',
     ce_date = '''', ce_location = '''', ce_category = ''culinary'',
     ce_organizer = None, ce_images = []\<rparr>"

definition example_catalog :: "string \<Rightarrow> string \<Rightarrow> catalog_event catalog_state" where
  "example_catalog searchTerm selectedCategory =
     \<lparr>cs_searchTerm = searchTerm, cs_events = [jazz_night, food_fest], cs_loading = False,
      cs_error = None, cs_selectedCategory = selectedCategory\<rparr>"

section \<open>Effects\<close>

text \<open>
  What a handler does to the outside world, in the order it does it: a toast, an HTTP
  request through the axios instance (method, URL and the fields of the JSON body), a
  client-side navigation, or a full-page redirect. Console logging is not modelled.
\<close>

datatype effect =
  Toast toast
| Http string string "(string \<times> string) list"
| NavigateTo string
| WindowRedirect string

fun isHttp :: "effect \<Rightarrow> bool" where
  "isHttp (Http m u b) = True"
| "isHttp (Toast t) = False"
| "isHttp (NavigateTo u) = False"
| "isHttp (WindowRedirect u) = False"



section \<open>Approval workflow (EventApproval, PendingEvents)\<close>

text \<open>The \<open>status\<close> parameter of both review handlers: \<open>'approved' | 'rejected'\<close>.\<close>

datatype review_target = ToApproved | ToRejected

fun status_str :: "review_target \<Rightarrow> string" where
  "status_str ToApproved = ''approved''"
| "status_str ToRejected = ''rejected''"

text \<open>
  What \<open>await api.put(...)\<close> can produce: a response with \<open>data.success\<close> true, a
  response with \<open>data.success\<close> false and an optional \<open>data.message\<close>, or a thrown
  error (non-2xx status, timeout, no connection) with an optional
  \<open>error.response?.data?.message\<close>.
\<close>

datatype api_result =
  ApiSuccess
| ApiFailure "string option"
| ApiThrown "string option"

text \<open>The state of \<open>EventApproval\<close> that \<open>handleReview\<close> reads or writes.\<close>

record approval_state =
  ea_feedback :: string
  ea_submitting :: bool

definition review_outcome :: "review_target \<Rightarrow> api_result \<Rightarrow> effect list" where
  "review_outcome status res =
     (case res of
        ApiSuccess \<Rightarrow> [Toast (ToastSuccess (''Event '' @ status_str status @ '' successfully''))]
      | ApiFailure msg \<Rightarrow>
          [Toast (ToastError (or_else msg (''Failed to '' @ status_str status @ '' event'')))]
      | ApiThrown msg \<Rightarrow>
          [Toast (ToastError (or_else msg
             (''An error occurred while '' @ status_str status @ ''ing the event'')))])"

definition handleReview ::
  "string \<Rightarrow> review_target \<Rightarrow> api_result \<Rightarrow> approval_state \<Rightarrow> approval_state \<times> effect list" where
  "handleReview eid status res st =
     (if status = ToRejected \<and> trim (ea_feedback st) = []
      then (st, [Toast (ToastError
                  ''Please provide feedback explaining why the event was rejected'')])
      else (st\<lparr>ea_submitting := False\<rparr>,
            [Http ''PUT'' (''/admin/events/'' @ eid @ ''/review'')
               [(''approvalStatus'', status_str status), (''adminFeedback'', ea_feedback st)]]
            @ review_outcome status res
            @ (if res = ApiSuccess then [NavigateTo ''/admin/events/pending''] else [])))"

text \<open>The pending queue's \<open>Event\<close> interface and the state of \<open>PendingEvents\<close>.\<close>

record pending_event =
  pe_id :: string
  pe_title :: string
  pe_date :: string
  pe_location :: string
  pe_organizer :: "string option"
  pe_createdAt :: string

record pending_state =
  ps_searchTerm :: string
  ps_events :: "pending_event list"
  ps_loading :: bool
  ps_error :: "string option"

text \<open>
  \<open>handleQuickAction\<close>; \<open>answer\<close> is what \<open>prompt(...)\<close> returns when it is called
  (\<open>None\<close> when the dialog is cancelled).
\<close>

definition handleQuickAction ::
  "string \<Rightarrow> review_target \<Rightarrow> string option \<Rightarrow> api_result \<Rightarrow> pending_state
     \<Rightarrow> pending_state \<times> effect list" where
  "handleQuickAction eventId status answer res st =
     (let feedback = (if status = ToRejected then answer else Some [])
      in if status = ToRejected \<and> \<not> truthy feedback
         then (st, [Toast (ToastError ''Feedback is required for rejections'')])
         else ((if res = ApiSuccess
                then st\<lparr>ps_events := filter (\<lambda>event. pe_id event \<noteq> eventId) (ps_events st)\<rparr>
                else st),
               [Http ''PUT'' (''/admin/events/'' @ eventId @ ''/review'')
                  [(''status'', status_str status), (''reviewNotes'', or_else feedback [])]]
               @ review_outcome status res))"

section \<open>Session store (AuthContext, axios instance)\<close>

datatype role = RoleUser | RoleAdmin | RoleOrganizer | RoleDoctor | RolePropertyOwner

record user =
  u_id :: string
  u_name :: string
  u_email :: string
  u_role :: role

type_synonym storage = "string \<rightharpoonup> string"

text \<open>
  The process-wide state: the two Web Storage areas, the axios instance's
  \<open>defaults.headers.common\<close>, and the \<open>AuthProvider\<close>'s React state.
\<close>

record app =
  localStorage :: storage
  sessionStorage :: storage
  defaults_common :: storage
  auth_user :: "user option"
  auth_token :: "string option"
  auth_loading :: bool

datatype js_error = SyntaxError

text \<open>
  \<open>loadUserFromStorage\<close>. \<open>JSON.parse\<close> is a parameter: it throws on a string that is
  not JSON and otherwise gives the stored user object.
\<close>

definition loadUserFromStorage ::
  "(string \<Rightarrow> js_error + user) \<Rightarrow> app \<Rightarrow> js_error + app \<times> effect list" where
  "loadUserFromStorage parse st =
     (case (localStorage st ''token'', localStorage st ''user'') of
        (Some savedToken, Some savedUser) \<Rightarrow>
          if savedToken \<noteq> [] \<and> savedUser \<noteq> []
          then (case parse savedUser of
                  Inl err \<Rightarrow> Inl err
                | Inr parsedUser \<Rightarrow>
                    Inr (st\<lparr>auth_user := Some parsedUser,
                            auth_token := Some savedToken,
                            defaults_common :=
                              (defaults_common st)(''Authorization'' \<mapsto> ''Bearer '' @ savedToken),
                            auth_loading := False\<rparr>, []))
          else Inr (st\<lparr>auth_loading := False\<rparr>, [])
      | _ \<Rightarrow> Inr (st\<lparr>auth_loading := False\<rparr>, []))"


definition logout :: "app \<Rightarrow> app" where
  "logout st =
     st\<lparr>auth_user := None,
        auth_token := None,
        localStorage := (localStorage st)(''token'' := None, ''user'' := None),
        defaults_common := (defaults_common st)(''Authorization'' := None)\<rparr>"

text \<open>
  The branch of the login pages' \<open>handleLogin\<close> that stores the credentials of a
  successful sign-in, by the "remember me" flag.
\<close>

definition handleLogin_store :: "(user \<Rightarrow> string) \<Rightarrow> bool \<Rightarrow> string \<Rightarrow> user \<Rightarrow> app \<Rightarrow> app" where
  "handleLogin_store stringify rememberMe tok userData st =
     (if rememberMe
      then st\<lparr>localStorage :=
                (localStorage st)(''token'' \<mapsto> tok, ''user'' \<mapsto> stringify userData)\<rparr>
      else st\<lparr>sessionStorage :=
                (sessionStorage st)(''token'' \<mapsto> tok, ''user'' \<mapsto> stringify userData)\<rparr>)"

record request_config =
  rc_method :: string
  rc_url :: string
  rc_headers :: storage

text \<open>\<open>a || b\<close> on two values read from storage.\<close>

definition or_opt :: "string option \<Rightarrow> string option \<Rightarrow> string option" where
  "or_opt a b = (if truthy a then a else b)"

definition request_interceptor :: "app \<Rightarrow> request_config \<Rightarrow> request_config" where
  "request_interceptor st config =
     (case or_opt (localStorage st ''token'') (sessionStorage st ''token'') of
        Some t \<Rightarrow>
          if t \<noteq> []
          then config\<lparr>rc_headers := (rc_headers config)(''Authorization'' \<mapsto> ''Bearer '' @ t)\<rparr>
          else config
      | None \<Rightarrow> config)"

text \<open>
  An outbound request as axios sends it: the configuration starts from the instance's
  common default headers, overridden by the request's own headers, and then passes the
  request interceptor.
\<close>

definition outbound :: "app \<Rightarrow> string \<Rightarrow> string \<Rightarrow> storage \<Rightarrow> request_config" where
  "outbound st method url hdrs =
     request_interceptor st
       \<lparr>rc_method = method, rc_url = url, rc_headers = defaults_common st ++ hdrs\<rparr>"


section \<open>Role-gated router (ProtectedRoute)\<close>

text \<open>The \<open>requiredRole\<close> property: \<open>'user' | 'organizer' | 'admin'\<close>, or absent.\<close>

datatype required_role = ReqUser | ReqOrganizer | ReqAdmin

fun role_of :: "required_role \<Rightarrow> role" where
  "role_of ReqUser = RoleUser"
| "role_of ReqOrganizer = RoleOrganizer"
| "role_of ReqAdmin = RoleAdmin"

datatype 'v route_outcome = LoadingPlaceholder | Navigate string | RenderChildren 'v

definition ProtectedRoute :: "app \<Rightarrow> required_role option \<Rightarrow> 'v \<Rightarrow> 'v route_outcome" where
  "ProtectedRoute st requiredRole children =
     (if auth_loading st then LoadingPlaceholder
      else case auth_user st of
             None \<Rightarrow> Navigate ''/signin''
           | Some u \<Rightarrow>
               (case requiredRole of
                  None \<Rightarrow> RenderChildren children
                | Some r \<Rightarrow>
                    if u_role u \<noteq> role_of r then Navigate ''/'' else RenderChildren children))"

section \<open>Event submission form (CreateEvent)\<close>

record TicketType =
  tk_name :: string
  tk_price :: string
  tk_quantity :: string

text \<open>
  The form state. \<open>ef_date\<close> is the selected \<open>Date\<close>, held as its \<open>toISOString()\<close>
  text, or \<open>None\<close> while no date is selected.
\<close>

record event_form =
  ef_title :: string
  ef_date :: "string option"
  ef_time :: string
  ef_location :: string
  ef_category :: string
  ef_description :: string
  ef_isPublished :: bool
  ef_eventImages :: "string list"
  ef_ticketTypes :: "TicketType list"
  ef_isSubmitting :: bool
  ef_isUploading :: bool

record FormErrors =
  fe_title :: "string option"
  fe_date :: "string option"
  fe_time :: "string option"
  fe_location :: "string option"
  fe_category :: "string option"
  fe_description :: "string option"
  fe_tickets :: "string option"
  fe_images :: "string option"
  fe_general :: "string option"

text \<open>\<open>ticket.name && ticket.price && ticket.quantity\<close> on three strings.\<close>

definition ticketFilled :: "TicketType \<Rightarrow> bool" where
  "ticketFilled ticket = (tk_name ticket \<noteq> [] \<and> tk_price ticket \<noteq> [] \<and> tk_quantity ticket \<noteq> [])"

text \<open>The loop of \<open>validateForm\<close> that looks for one valid ticket and breaks.\<close>

fun hasValidTicket :: "TicketType list \<Rightarrow> bool" where
  "hasValidTicket [] = False"
| "hasValidTicket (ticket # rest) = (if ticketFilled ticket then True else hasValidTicket rest)"

definition required_msg :: "bool \<Rightarrow> string \<Rightarrow> string option" where
  "required_msg missing msg = (if missing then Some msg else None)"

definition validateForm :: "event_form \<Rightarrow> FormErrors \<times> bool" where
  "validateForm f =
     (\<lparr>fe_title = required_msg (trim (ef_title f) = []) ''Event title is required'',
       fe_date = required_msg (ef_date f = None) ''Event date is required'',
       fe_time = required_msg (ef_time f = []) ''Event time is required'',
       fe_location = required_msg (trim (ef_location f) = []) ''Event location is required'',
       fe_category = required_msg (ef_category f = []) ''Event category is required'',
       fe_description =
         required_msg (trim (ef_description f) = []) ''Event description is required'',
       fe_tickets = required_msg (\<not> hasValidTicket (ef_ticketTypes f))
                      ''At least one valid ticket type is required'',
       fe_images = None,
       fe_general = None\<rparr>,
      trim (ef_title f) \<noteq> [] \<and> ef_date f \<noteq> None \<and> ef_time f \<noteq> [] \<and>
      trim (ef_location f) \<noteq> [] \<and> ef_category f \<noteq> [] \<and> trim (ef_description f) \<noteq> [] \<and>
      hasValidTicket (ef_ticketTypes f))"

record eventData =
  ed_title :: string
  ed_description :: string
  ed_date :: string
  ed_time :: string
  ed_location :: string
  ed_category :: string
  ed_images :: "string list"
  ed_published :: bool
  ed_tickets :: "TicketType list"

text \<open>
  The browser's constraint validation of the form's controls, which decides whether the
  submit event is fired at all (the form has no \<open>noValidate\<close>). The title, time and
  location inputs and every tier's name input are \<open>required\<close>; the price inputs are
  \<open>type="number" min="0" required\<close> and the quantity inputs \<open>type="number" min="1"
  required\<close>, both with the default step of one counted from the minimum. The browser's
  reading of a number input's text is a parameter, \<open>parseNumber\<close>.
\<close>

definition numberValid :: "(string \<Rightarrow> rat option) \<Rightarrow> rat \<Rightarrow> string \<Rightarrow> bool" where
  "numberValid parseNumber minimum v =
     (v \<noteq> [] \<and>
      (case parseNumber v of
         None \<Rightarrow> False
       | Some x \<Rightarrow> minimum \<le> x \<and> x - minimum = of_int \<lfloor>x - minimum\<rfloor>))"

definition tierValid :: "(string \<Rightarrow> rat option) \<Rightarrow> TicketType \<Rightarrow> bool" where
  "tierValid parseNumber ticket =
     (tk_name ticket \<noteq> [] \<and> numberValid parseNumber 0 (tk_price ticket) \<and>
      numberValid parseNumber 1 (tk_quantity ticket))"

definition checkValidity :: "(string \<Rightarrow> rat option) \<Rightarrow> event_form \<Rightarrow> bool" where
  "checkValidity parseNumber f =
     (ef_title f \<noteq> [] \<and> ef_time f \<noteq> [] \<and> ef_location f \<noteq> [] \<and>
      list_all (tierValid parseNumber) (ef_ticketTypes f))"

text \<open>
  A click on the submit button, up to the request. The button is disabled while an
  upload or a submission is running, and the submit event reaches \<open>handleSubmit\<close> only
  for a form that passes constraint validation: otherwise nothing happens in the handler
  (\<open>Blocked\<close>). The handler then either refuses with the error toast of a failed
  \<open>validateForm\<close>, or posts the body to \<open>/public/events\<close>. \<open>split('T')[0]\<close> is the
  text before the first \<open>T\<close>.
\<close>

datatype submit_outcome = Blocked | Refused toast | Posted eventData

definition handleSubmit :: "(string \<Rightarrow> rat option) \<Rightarrow> event_form \<Rightarrow> submit_outcome" where
  "handleSubmit parseNumber f =
     (if ef_isSubmitting f \<or> ef_isUploading f \<or> \<not> checkValidity parseNumber f then Blocked
      else if \<not> snd (validateForm f)
      then Refused (ToastError ''Please fix the errors in the form'')
      else Posted \<lparr>ed_title = ef_title f,
                   ed_description = ef_description f,
                   ed_date = (case ef_date f of
                                Some isoText \<Rightarrow> takeWhile (\<lambda>c. c \<noteq> CHR ''T'') isoText
                              | None \<Rightarrow> []),
                   ed_time = ef_time f,
                   ed_location = ef_location f,
                   ed_category = ef_category f,
                   ed_images = ef_eventImages f,
                   ed_published = ef_isPublished f,
                   ed_tickets = filter ticketFilled (ef_ticketTypes f)\<rparr>)"

text \<open>
  The specification's wording of a valid tier: a non-empty name, a numeric price and a
  numeric quantity of at least one.
\<close>

definition spec_valid_tier :: "(string \<Rightarrow> rat option) \<Rightarrow> TicketType \<Rightarrow> bool" where
  "spec_valid_tier parseNumber ticket =
     (tk_name ticket \<noteq> [] \<and> parseNumber (tk_price ticket) \<noteq> None \<and>
      (case parseNumber (tk_quantity ticket) of Some q \<Rightarrow> 1 \<le> q | None \<Rightarrow> False))"

text \<open>
  A number reading for the concrete inputs: unsigned decimal numerals, no value for any
  other text.
\<close>

definition isDigit :: "char \<Rightarrow> bool" where
  "isDigit c = (48 \<le> (of_char c :: nat) \<and> (of_char c :: nat) \<le> 57)"

definition decimal_value :: "string \<Rightarrow> nat option" where
  "decimal_value s =
     (if s \<noteq> [] \<and> list_all isDigit s
      then Some (foldl (\<lambda>acc c. 10 * acc + (of_char c - 48)) 0 s)
      else None)"

definition decimal_number :: "string \<Rightarrow> rat option" where
  "decimal_number s = map_option of_nat (decimal_value s)"

section \<open>Requests outside the axios instance (OrganizerContext)\<close>





section \<open>Concrete inputs\<close>

definition gala :: "approval_status \<Rightarrow> bool \<Rightarrow> server_event" where
  "gala status pub =
     \<lparr>ce_id = ''7'', ce_title = ''Harbour Gala'', ce_description = ''An evening by the sea'',
      ce_date = ''2025-12-01'', ce_location = ''Galle'', ce_category = ''cultural'',
      ce_organizer = Some ''Lanka Events'', ce_images = [],
      approvalStatus = status, published = pub\<rparr>"

definition fresh_catalog :: "server_event catalog_state" where
  "fresh_catalog =
     \<lparr>cs_searchTerm = [], cs_events = [], cs_loading = True, cs_error = None,
      cs_selectedCategory = ''all''\<rparr>"

definition review_form :: "string \<Rightarrow> approval_state" where
  "review_form fb = \<lparr>ea_feedback = fb, ea_submitting = False\<rparr>"

definition queued :: "string \<Rightarrow> string \<Rightarrow> pending_event" where
  "queued i title =
     \<lparr>pe_id = i, pe_title = title, pe_date = ''2025-12-01'', pe_location = ''Kandy'',
      pe_organizer = None, pe_createdAt = ''2025-11-01''\<rparr>"

definition queue :: pending_state where
  "queue =
     \<lparr>ps_searchTerm = [], ps_events = [queued ''a'' ''Drums'', queued ''b'' ''Kites''],
      ps_loading = False, ps_error = None\<rparr>"

definition example_user :: "role \<Rightarrow> user" where
  "example_user r =
     \<lparr>u_id = ''u1'', u_name = ''Nimal'', u_email = ''nimal@example.org'', u_role = r\<rparr>"

text \<open>A stand-in for \<open>JSON.stringify\<close> and \<open>JSON.parse\<close> on the example user.\<close>

definition example_stringify :: "user \<Rightarrow> string" where
  "example_stringify u = ''{'' @ u_id u @ '','' @ u_name u @ '','' @ u_email u @ ''}''"

definition example_parse :: "string \<Rightarrow> js_error + user" where
  "example_parse s =
     (if s = example_stringify (example_user RoleOrganizer)
      then Inr (example_user RoleOrganizer) else Inl SyntaxError)"

text \<open>
  The state at process start, for given storage contents: nobody signed in, no
  \<open>Authorization\<close> default header, \<open>loading\<close> still true.
\<close>

definition initial_app :: "storage \<Rightarrow> storage \<Rightarrow> app" where
  "initial_app ls ss =
     \<lparr>localStorage = ls, sessionStorage = ss, defaults_common = Map.empty,
      auth_user = None, auth_token = None, auth_loading = True\<rparr>"

definition settled_app :: "user option \<Rightarrow> app" where
  "settled_app u = (initial_app Map.empty Map.empty)\<lparr>auth_user := u, auth_loading := False\<rparr>"

definition tier :: "string \<Rightarrow> string \<Rightarrow> string \<Rightarrow> TicketType" where
  "tier n p q = \<lparr>tk_name = n, tk_price = p, tk_quantity = q\<rparr>"

definition gala_form :: "TicketType list \<Rightarrow> event_form" where
  "gala_form tiers =
     \<lparr>ef_title = ''Harbour Gala'', ef_date = Some ''2025-12-01T00:00:00.000Z'',
      ef_time = ''19:30'', ef_location = ''Galle'', ef_category = ''cultural'',
      ef_description = ''An evening by the sea'', ef_isPublished = True,
      ef_eventImages = [], ef_ticketTypes = tiers,
      ef_isSubmitting = False, ef_isUploading = False\<rparr>"

definition gala_payload :: "TicketType list \<Rightarrow> eventData" where
  "gala_payload tiers =
     \<lparr>ed_title = ''Harbour Gala'', ed_description = ''An evening by the sea'',
      ed_date = ''2025-12-01'', ed_time = ''19:30'', ed_location = ''Galle'',
      ed_category = ''cultural'', ed_images = [], ed_published = True, ed_tickets = tiers\<rparr>"

definition session_signed_in :: app where
  "session_signed_in =
     handleLogin_store example_stringify False ''tok123'' (example_user RoleOrganizer)
       (initial_app Map.empty Map.empty)"

definition durable_pair :: storage where
  "durable_pair =
     [''token'' \<mapsto> ''tok123'', ''user'' \<mapsto> example_stringify (example_user RoleOrganizer)]"

definition get_events :: request_config where
  "get_events = \<lparr>rc_method = ''GET'', rc_url = ''/events'', rc_headers = Map.empty\<rparr>"

definition regatta :: "approval_status \<Rightarrow> bool \<Rightarrow> server_event" where
  "regatta status pub =
     \<lparr>ce_id = ''8'', ce_title = ''Lagoon Regatta'', ce_description = ''Sailing races'',
      ce_date = ''2025-12-14'', ce_location = ''Negombo'', ce_category = ''sports'',
      ce_organizer = None, ce_images = [],
      approvalStatus = status, published = pub\<rparr>"

definition browsing :: "string \<Rightarrow> string \<Rightarrow> server_event catalog_state" where
  "browsing searchTerm selectedCategory =
     \<lparr>cs_searchTerm = searchTerm, cs_events = [], cs_loading = True, cs_error = None,
      cs_selectedCategory = selectedCategory\<rparr>"



section \<open>Facts about the string functions\<close>

lemma startsWith_iff: "startsWith s n \<longleftrightarrow> (\<exists>t. s = n @ t)"
  by (induction s n rule: startsWith.induct) auto

lemma includes_str_iff: "includes_str s n \<longleftrightarrow> (\<exists>p t. s = p @ n @ t)"
proof (induction s)
  case Nil
  then show ?case by auto
next
  case (Cons x xs)
  show ?case
  proof
    assume "includes_str (x # xs) n"
    then consider "startsWith (x # xs) n" | "includes_str xs n" by auto
    then show "\<exists>p t. x # xs = p @ n @ t"
    proof cases
      case 1
      then obtain t where "x # xs = n @ t" using startsWith_iff by blast
      then have "x # xs = [] @ n @ t" by simp
      then show ?thesis by blast
    next
      case 2
      then obtain p t where "xs = p @ n @ t" using Cons.IH by blast
      then have "x # xs = (x # p) @ n @ t" by simp
      then show ?thesis by blast
    qed
  next
    assume "\<exists>p t. x # xs = p @ n @ t"
    then obtain p t where pt: "x # xs = p @ n @ t" by blast
    show "includes_str (x # xs) n"
    proof (cases p)
      case Nil
      then have "startsWith (x # xs) n" using pt startsWith_iff by auto
      then show ?thesis by simp
    next
      case (Cons a p')
      then have "xs = p' @ n @ t" using pt by simp
      then have "includes_str xs n" using Cons.IH by blast
      then show ?thesis by simp
    qed
  qed
qed

lemma map_eq_sandwich:
  assumes "map f hay = p' @ n' @ t'"
  shows "\<exists>p m t. hay = p @ m @ t \<and> map f m = n'"
proof -
  from assms obtain p r where pr: "hay = p @ r" "n' @ t' = map f r"
    unfolding map_eq_append_conv by blast
  from pr(2) obtain m t where "r = m @ t" "n' = map f m"
    unfolding append_eq_map_conv by blast
  with pr(1) show ?thesis by blast
qed

lemma includes_lower_iff:
  "includes_str (toLowerCase hay) (toLowerCase needle) \<longleftrightarrow> spec_ci_substring needle hay"
proof
  assume "includes_str (toLowerCase hay) (toLowerCase needle)"
  then obtain p' t' where "toLowerCase hay = p' @ toLowerCase needle @ t'"
    unfolding includes_str_iff by (elim exE)
  then have "map toLowerChar hay = p' @ toLowerCase needle @ t'"
    by (simp only: toLowerCase_def)
  from map_eq_sandwich [OF this]
  obtain p m t where "hay = p @ m @ t" and "map toLowerChar m = toLowerCase needle"
    by (elim exE conjE)
  then have "hay = p @ m @ t \<and> toLowerCase m = toLowerCase needle"
    by (simp only: toLowerCase_def)
  then show "spec_ci_substring needle hay"
    unfolding spec_ci_substring_def by (intro exI)
next
  assume "spec_ci_substring needle hay"
  then obtain p m t where h: "hay = p @ m @ t" and m: "toLowerCase m = toLowerCase needle"
    unfolding spec_ci_substring_def by (elim exE conjE)
  have "toLowerCase hay = toLowerCase p @ toLowerCase m @ toLowerCase t"
    unfolding h by (simp add: toLowerCase_def)
  then have "toLowerCase hay = toLowerCase p @ toLowerCase needle @ toLowerCase t"
    by (simp only: m)
  then show "includes_str (toLowerCase hay) (toLowerCase needle)"
    unfolding includes_str_iff by (intro exI)
qed

lemma matches_iff_spec:
  "matchesSearch s e \<and> matchesCategory c e \<longleftrightarrow> spec_matches s c e"
  by (cases "ce_organizer e")
     (simp_all add: matchesSearch_def matchesCategory_def spec_matches_def includes_lower_iff)

section \<open>Catalog search and category filter\<close>

text \<open>
  C6. The catalog filter keeps, in their order, exactly the events whose title,
  description, location or organizer name contains the search term up to letter case and
  whose category is the selected one (or the selection is "all"). On the two-event example,
  searching "jazz" under "all" leaves only "Jazz Night", and selecting "culinary" with an
  empty search leaves only "Food Fest".
\<close>

theorem filteredEvents_search_and_category:
  "filteredEvents st =
     filter (spec_matches (cs_searchTerm st) (cs_selectedCategory st)) (cs_events st)
   \<and> (e \<in> set (filteredEvents st) \<longleftrightarrow>
        e \<in> set (cs_events st) \<and> spec_matches (cs_searchTerm st) (cs_selectedCategory st) e)
   \<and> filteredEvents (example_catalog ''jazz'' ''all'') = [jazz_night]
   \<and> filteredEvents (example_catalog '''' ''culinary'') = [food_fest]"
proof -
  have eq: "filteredEvents st =
      filter (spec_matches (cs_searchTerm st) (cs_selectedCategory st)) (cs_events st)"
    unfolding filteredEvents_def by (rule filter_cong) (simp_all add: matches_iff_spec)
  have mem: "e \<in> set (filteredEvents st) \<longleftrightarrow>
      e \<in> set (cs_events st) \<and> spec_matches (cs_searchTerm st) (cs_selectedCategory st) e"
    unfolding eq by simp
  have ex1: "filteredEvents (example_catalog ''jazz'' ''all'') = [jazz_night]"
    by code_simp
  have ex2: "filteredEvents (example_catalog '''' ''culinary'') = [food_fest]"
    by code_simp
  from eq mem ex1 ex2 show ?thesis by blast
qed

section \<open>Catalog visibility\<close>

lemma fetch_success_state:
  "fst (fetchApprovedEvents (FetchResolved True (Some fetched) cnt msg) st) =
     st\<lparr>cs_events := fetched,
        cs_error := (if cnt = Some 0
                     then Some ''No approved events found. Please check back later.''
                     else None),
        cs_loading := False\<rparr>"
  by simp

lemma displayed_after_fetch:
  "filteredEvents (fst (fetchApprovedEvents (FetchResolved True (Some fetched) cnt msg) st)) =
     filter (spec_matches (cs_searchTerm st) (cs_selectedCategory st)) fetched"
  unfolding fetch_success_state filteredEvents_def
  by (rule filter_cong) (simp_all add: matches_iff_spec)

lemma matches_ignore_status:
  "matchesSearch s (ev\<lparr>approvalStatus := a, published := p\<rparr>) = matchesSearch s ev"
  "matchesCategory c (ev\<lparr>approvalStatus := a, published := p\<rparr>) = matchesCategory c ev"
  by (simp_all add: matchesSearch_def matchesCategory_def)

text \<open>
  C2 as stated fails: a pending event that the response of \<open>GET /events\<close> contains is
  stored and displayed; the catalog never looks at the approval status.
\<close>

theorem catalog_displays_fetched_pending_event:
  "approvalStatus (gala Pending True) \<noteq> Approved \<and>
   filteredEvents
     (fst (fetchApprovedEvents (FetchResolved True (Some [gala Pending True]) (Some 1) None)
            fresh_catalog))
   = [gala Pending True]"
  by (simp add: gala_def fresh_catalog_def filteredEvents_def matchesSearch_def
        matchesCategory_def toLowerCase_def)

text \<open>
  C2, amended. After a successful fetch the catalog displays, in their order, exactly the
  fetched events that pass the search and category filters, for every response, approved
  or not; whether an event passes does not depend on its approval status or its published
  flag. So a non-approved event is kept out of the view only by the server's response:
  when every fetched event is approved, every displayed event is approved.
\<close>

theorem catalog_displays_only_fetched_events:
  "filteredEvents (fst (fetchApprovedEvents (FetchResolved True (Some fetched) cnt msg) st)) =
     filter (spec_matches (cs_searchTerm st) (cs_selectedCategory st)) fetched
   \<and> (ev \<in> set (filteredEvents
          (fst (fetchApprovedEvents (FetchResolved True (Some fetched) cnt msg) st))) \<longleftrightarrow>
        ev \<in> set fetched \<and> spec_matches (cs_searchTerm st) (cs_selectedCategory st) ev)
   \<and> spec_matches s c (ev2\<lparr>approvalStatus := a, published := p\<rparr>) = spec_matches s c ev2
   \<and> ((\<forall>e \<in> set fetched. approvalStatus e = Approved) \<longrightarrow>
        (\<forall>e \<in> set (filteredEvents
            (fst (fetchApprovedEvents (FetchResolved True (Some fetched) cnt msg) st))).
           approvalStatus e = Approved))"
proof -
  have eq: "filteredEvents
      (fst (fetchApprovedEvents (FetchResolved True (Some fetched) cnt msg) st)) =
      filter (spec_matches (cs_searchTerm st) (cs_selectedCategory st)) fetched"
    by (rule displayed_after_fetch)
  have mem: "ev \<in> set (filteredEvents
        (fst (fetchApprovedEvents (FetchResolved True (Some fetched) cnt msg) st))) \<longleftrightarrow>
      ev \<in> set fetched \<and> spec_matches (cs_searchTerm st) (cs_selectedCategory st) ev"
    unfolding eq by simp
  have ign: "spec_matches s c (ev2\<lparr>approvalStatus := a, published := p\<rparr>) = spec_matches s c ev2"
    unfolding matches_iff_spec [symmetric] by (simp only: matches_ignore_status)
  have app: "(\<forall>e \<in> set fetched. approvalStatus e = Approved) \<longrightarrow>
      (\<forall>e \<in> set (filteredEvents
          (fst (fetchApprovedEvents (FetchResolved True (Some fetched) cnt msg) st))).
         approvalStatus e = Approved)"
    unfolding eq by simp
  from eq mem ign app show ?thesis
    by (intro conjI)
qed

theorem catalog_displays_only_fetched_events_witness:
  "filteredEvents
     (fst (fetchApprovedEvents
        (FetchResolved True (Some [gala Pending False, regatta Approved True]) (Some 2) None)
        (browsing ''GALA'' ''cultural'')))
     = [gala Pending False]
   \<and> approvalStatus (gala Approved True) = Approved
   \<and> approvalStatus (regatta Approved True) = Approved
   \<and> filteredEvents
       (fst (fetchApprovedEvents
          (FetchResolved True (Some [gala Approved True, regatta Approved True]) (Some 2) None)
          (browsing ''regatta'' ''all'')))
       = [regatta Approved True]
   \<and> list_all (\<lambda>e. approvalStatus e = Approved)
       (filteredEvents
         (fst (fetchApprovedEvents
            (FetchResolved True (Some [gala Approved True, regatta Approved True]) (Some 2) None)
            (browsing ''regatta'' ''all''))))"
proof -
  have m1: "matchesSearch ''GALA'' (gala Pending False)"
    "matchesCategory ''cultural'' (gala Pending False)"
    "\<not> matchesCategory ''cultural'' (regatta Approved True)"
    by (simp_all add: matchesSearch_def matchesCategory_def gala_def regatta_def) code_simp
  have m2: "\<not> matchesSearch ''regatta'' (gala Approved True)"
    "matchesSearch ''regatta'' (regatta Approved True)"
    "matchesCategory ''all'' (regatta Approved True)"
    by (simp_all add: matchesCategory_def) code_simp+
  have s1: "spec_matches ''GALA'' ''cultural'' (gala Pending False)"
    "\<not> spec_matches ''GALA'' ''cultural'' (regatta Approved True)"
    unfolding matches_iff_spec [symmetric] using m1 by simp_all
  have s2: "\<not> spec_matches ''regatta'' ''all'' (gala Approved True)"
    "spec_matches ''regatta'' ''all'' (regatta Approved True)"
    unfolding matches_iff_spec [symmetric] using m2 by simp_all
  have b: "cs_searchTerm (browsing x y) = x" "cs_selectedCategory (browsing x y) = y" for x y
    by (simp_all add: browsing_def)
  have a: "approvalStatus (gala Approved True) = Approved"
    "approvalStatus (regatta Approved True) = Approved"
    by (simp_all add: gala_def regatta_def)
  note T1 = catalog_displays_only_fetched_events
    [where fetched = "[gala Pending False, regatta Approved True]" and cnt = "Some 2"
       and msg = None and st = "browsing ''GALA'' ''cultural''", THEN conjunct1]
  note T2 = catalog_displays_only_fetched_events
    [where fetched = "[gala Approved True, regatta Approved True]" and cnt = "Some 2"
       and msg = None and st = "browsing ''regatta'' ''all''"]
  have d1: "filteredEvents
      (fst (fetchApprovedEvents
         (FetchResolved True (Some [gala Pending False, regatta Approved True]) (Some 2) None)
         (browsing ''GALA'' ''cultural'')))
      = [gala Pending False]"
    unfolding T1 b using s1 by simp
  have d2: "filteredEvents
      (fst (fetchApprovedEvents
         (FetchResolved True (Some [gala Approved True, regatta Approved True]) (Some 2) None)
         (browsing ''regatta'' ''all'')))
      = [regatta Approved True]"
    unfolding T2 [THEN conjunct1] b using s2 by simp
  have h: "\<forall>e \<in> set [gala Approved True, regatta Approved True]. approvalStatus e = Approved"
    using a by simp
  have d3: "list_all (\<lambda>e. approvalStatus e = Approved)
      (filteredEvents
        (fst (fetchApprovedEvents
           (FetchResolved True (Some [gala Approved True, regatta Approved True]) (Some 2) None)
           (browsing ''regatta'' ''all''))))"
    unfolding list_all_iff
    by (rule T2 [THEN conjunct2, THEN conjunct2, THEN conjunct2, THEN mp, OF h])
  from d1 a d2 d3 show ?thesis
    by (intro conjI)
qed

section \<open>Review requests\<close>

lemma trim_Nil: "trim [] = []"
  by (simp add: trim_def)

lemma review_outcome_no_http: "\<not> list_ex isHttp (review_outcome status res)"
  by (cases res) (simp_all add: review_outcome_def)

text \<open>
  C1. A rejection with empty feedback is refused by both review handlers: the state is
  unchanged and the only effect is an error toast, so no request is sent. A rejection
  request is sent only when the feedback is non-empty.
\<close>

theorem rejection_without_feedback_not_dispatched:
  "(ea_feedback st = [] \<longrightarrow>
      handleReview eid ToRejected res st =
        (st, [Toast (ToastError ''Please provide feedback explaining why the event was rejected'')]))
   \<and> (answer = None \<or> answer = Some [] \<longrightarrow>
      handleQuickAction eid ToRejected answer res pst =
        (pst, [Toast (ToastError ''Feedback is required for rejections'')]))
   \<and> (list_ex isHttp (snd (handleReview eid2 ToRejected res2 st2)) \<longrightarrow> ea_feedback st2 \<noteq> [])
   \<and> (list_ex isHttp (snd (handleQuickAction eid2 ToRejected answer2 res2 pst2)) \<longrightarrow>
        (\<exists>fb. answer2 = Some fb \<and> fb \<noteq> []))"
proof (intro conjI impI)
  assume "ea_feedback st = []"
  then show "handleReview eid ToRejected res st =
      (st, [Toast (ToastError ''Please provide feedback explaining why the event was rejected'')])"
    by (simp add: handleReview_def trim_Nil)
next
  assume "answer = None \<or> answer = Some []"
  then have "\<not> truthy answer" by (auto simp: truthy_def)
  then show "handleQuickAction eid ToRejected answer res pst =
      (pst, [Toast (ToastError ''Feedback is required for rejections'')])"
    by (simp add: handleQuickAction_def)
next
  assume h: "list_ex isHttp (snd (handleReview eid2 ToRejected res2 st2))"
  show "ea_feedback st2 \<noteq> []"
  proof
    assume "ea_feedback st2 = []"
    then have "snd (handleReview eid2 ToRejected res2 st2) =
        [Toast (ToastError ''Please provide feedback explaining why the event was rejected'')]"
      by (simp add: handleReview_def trim_Nil)
    with h show False by simp
  qed
next
  assume h: "list_ex isHttp (snd (handleQuickAction eid2 ToRejected answer2 res2 pst2))"
  have "truthy answer2"
  proof (rule ccontr)
    assume "\<not> truthy answer2"
    then have "snd (handleQuickAction eid2 ToRejected answer2 res2 pst2) =
        [Toast (ToastError ''Feedback is required for rejections'')]"
      by (simp add: handleQuickAction_def)
    with h show False by simp
  qed
  then show "\<exists>fb. answer2 = Some fb \<and> fb \<noteq> []"
    by (cases answer2) (simp_all add: truthy_def)
qed

theorem rejection_without_feedback_not_dispatched_witness:
  "ea_feedback (review_form []) = []
   \<and> handleReview ''7'' ToRejected ApiSuccess (review_form []) =
        (review_form [],
         [Toast (ToastError ''Please provide feedback explaining why the event was rejected'')])
   \<and> handleQuickAction ''a'' ToRejected None ApiSuccess queue =
        (queue, [Toast (ToastError ''Feedback is required for rejections'')])
   \<and> list_ex isHttp (snd (handleReview ''7'' ToRejected ApiSuccess (review_form ''No venue'')))
   \<and> ea_feedback (review_form ''No venue'') \<noteq> []
   \<and> list_ex isHttp (snd (handleQuickAction ''a'' ToRejected (Some ''No venue'') ApiSuccess queue))
   \<and> (\<exists>fb. Some ''No venue'' = Some fb \<and> fb \<noteq> [])"
proof -
  have a: "ea_feedback (review_form []) = []"
    by (simp add: review_form_def)
  have b: "list_ex isHttp (snd (handleReview ''7'' ToRejected ApiSuccess (review_form ''No venue'')))"
    by (simp add: handleReview_def review_form_def trim_def isWhiteSpace_def)
  have c: "list_ex isHttp
      (snd (handleQuickAction ''a'' ToRejected (Some ''No venue'') ApiSuccess queue))"
    by (simp add: handleQuickAction_def truthy_def)
  from rejection_without_feedback_not_dispatched
    [where st = "review_form []" and eid = "''7''" and res = ApiSuccess and answer = None
       and pst = queue and ?eid2.0 = "''7''" and ?res2.0 = ApiSuccess
       and ?st2.0 = "review_form ''No venue''" and ?answer2.0 = "Some ''No venue''"
       and ?pst2.0 = queue]
  show ?thesis using a b c
    by (simp add: handleQuickAction_def truthy_def)
qed

section \<open>Pending queue after a review\<close>





section \<open>Role-gated routing\<close>

text \<open>
  C5 as stated fails: while the session store is still loading, a missing user does not
  lead to the sign-in page.
\<close>

theorem route_while_loading_is_not_redirect:
  "auth_user (initial_app Map.empty Map.empty) = None \<and>
   ProtectedRoute (initial_app Map.empty Map.empty) (Some ReqAdmin) ''AdminPage''
     \<noteq> Navigate ''/signin''"
  by (simp add: initial_app_def ProtectedRoute_def)

text \<open>
  C5, amended. While the session store is loading the router renders a loading
  placeholder. Once it has loaded, the outcome is one of three, decided by the user and
  the required role alone: redirect to \<open>/signin\<close> without a user, redirect to \<open>/\<close> when
  the user's role differs from the required one, the protected content when it matches.
\<close>

theorem protected_route_outcomes:
  "(auth_loading st0 \<longrightarrow> ProtectedRoute st0 (Some r) c = LoadingPlaceholder)
   \<and> (\<not> auth_loading st1 \<and> auth_user st1 = None \<longrightarrow>
        ProtectedRoute st1 (Some r) c = Navigate ''/signin'')
   \<and> (\<not> auth_loading st2 \<and> auth_user st2 = Some u2 \<and> u_role u2 \<noteq> role_of r \<longrightarrow>
        ProtectedRoute st2 (Some r) c = Navigate ''/'')
   \<and> (\<not> auth_loading st3 \<and> auth_user st3 = Some u3 \<and> u_role u3 = role_of r \<longrightarrow>
        ProtectedRoute st3 (Some r) c = RenderChildren c)
   \<and> (\<not> auth_loading st4 \<and> \<not> auth_loading st5 \<and> auth_user st4 = auth_user st5 \<longrightarrow>
        ProtectedRoute st4 (Some r) c = ProtectedRoute st5 (Some r) c)"
  by (simp add: ProtectedRoute_def)

theorem protected_route_outcomes_witness:
  "auth_loading (initial_app Map.empty Map.empty)
   \<and> ProtectedRoute (initial_app Map.empty Map.empty) (Some ReqAdmin) ''AdminPage''
       = LoadingPlaceholder
   \<and> \<not> auth_loading (settled_app None) \<and> auth_user (settled_app None) = None
   \<and> ProtectedRoute (settled_app None) (Some ReqAdmin) ''AdminPage'' = Navigate ''/signin''
   \<and> u_role (example_user RoleOrganizer) \<noteq> role_of ReqAdmin
   \<and> ProtectedRoute (settled_app (Some (example_user RoleOrganizer))) (Some ReqAdmin)
        ''AdminPage'' = Navigate ''/''
   \<and> u_role (example_user RoleAdmin) = role_of ReqAdmin
   \<and> ProtectedRoute (settled_app (Some (example_user RoleAdmin))) (Some ReqAdmin)
        ''AdminPage'' = RenderChildren ''AdminPage''"
proof -
  have a: "auth_loading (initial_app Map.empty Map.empty)"
    by (simp add: initial_app_def)
  have b: "\<not> auth_loading (settled_app v)" "auth_user (settled_app v) = v" for v
    by (simp_all add: settled_app_def initial_app_def)
  have c: "u_role (example_user RoleOrganizer) \<noteq> role_of ReqAdmin"
    "u_role (example_user RoleAdmin) = role_of ReqAdmin"
    by (simp_all add: example_user_def)
  from protected_route_outcomes
    [where ?st0.0 = "initial_app Map.empty Map.empty" and r = ReqAdmin and c = "''AdminPage''"
       and ?st1.0 = "settled_app None"
       and ?st2.0 = "settled_app (Some (example_user RoleOrganizer))"
       and ?u2.0 = "example_user RoleOrganizer"
       and ?st3.0 = "settled_app (Some (example_user RoleAdmin))"
       and ?u3.0 = "example_user RoleAdmin"
       and ?st4.0 = "settled_app None" and ?st5.0 = "settled_app None"]
  show ?thesis using a b c by simp
qed

section \<open>Submitted ticket tiers\<close>

lemma numberValid_parsed: "numberValid pn m v \<Longrightarrow> \<exists>x. pn v = Some x \<and> m \<le> x"
  by (auto simp: numberValid_def split: option.splits)

lemma numberValid_nonempty: "numberValid pn m v \<Longrightarrow> v \<noteq> []"
  by (simp add: numberValid_def)

lemma tierValid_filled: "tierValid pn t \<Longrightarrow> ticketFilled t"
  by (auto simp: tierValid_def ticketFilled_def dest: numberValid_nonempty)

lemma tierValid_spec: "tierValid pn t \<Longrightarrow> spec_valid_tier pn t"
proof -
  assume v: "tierValid pn t"
  then obtain x where x: "pn (tk_price t) = Some x"
    unfolding tierValid_def using numberValid_parsed by blast
  from v obtain q where q: "pn (tk_quantity t) = Some q" "1 \<le> q"
    unfolding tierValid_def using numberValid_parsed by blast
  from v have "tk_name t \<noteq> []"
    by (simp add: tierValid_def)
  with x q show ?thesis
    by (simp add: spec_valid_tier_def)
qed

lemma all_valid_all_filled:
  "list_all (tierValid pn) ts \<Longrightarrow> filter ticketFilled ts = ts"
  by (induction ts) (auto dest: tierValid_filled)

lemma hasValidTicket_iff: "hasValidTicket ts \<longleftrightarrow> filter ticketFilled ts \<noteq> []"
  by (induction ts) simp_all

lemma handleSubmit_posted:
  assumes "handleSubmit pn f = Posted payload"
  shows "checkValidity pn f" and "snd (validateForm f)"
    and "ed_tickets payload = filter ticketFilled (ef_ticketTypes f)"
  using assms by (auto simp: handleSubmit_def split: if_splits)

lemma invalid_tier_blocks:
  assumes "t \<in> set (ef_ticketTypes f)" and "\<not> tierValid pn t"
  shows "handleSubmit pn f = Blocked"
proof -
  from assms have "\<not> list_all (tierValid pn) (ef_ticketTypes f)"
    by (auto simp: list_all_iff)
  then show ?thesis
    by (simp add: handleSubmit_def checkValidity_def)
qed

lemma decimal_number_values:
  "decimal_number ''500'' = Some 500" "decimal_number ''100'' = Some 100"
  "decimal_number ''900'' = Some 900" "decimal_number ''20'' = Some 20"
  by (simp_all add: decimal_number_def decimal_value_def isDigit_def)

lemma two_valid_tiers_posted:
  "handleSubmit decimal_number
     (gala_form [tier ''General'' ''500'' ''100'', tier ''VIP'' ''900'' ''20''])
     = Posted (gala_payload [tier ''General'' ''500'' ''100'', tier ''VIP'' ''900'' ''20''])"
  by (simp add: handleSubmit_def checkValidity_def tierValid_def numberValid_def
        decimal_number_values validateForm_def ticketFilled_def gala_form_def
        gala_payload_def tier_def trim_def isWhiteSpace_def)

text \<open>
  C4 as stated fails on its own example: with two tiers of which one has an empty name,
  the form is not submitted at all, since the name input is required; no payload with the
  valid tier alone is posted.
\<close>

theorem form_with_empty_tier_name_is_not_submitted:
  "handleSubmit decimal_number
     (gala_form [tier ''General'' ''500'' ''100'', tier [] ''900'' ''20'']) = Blocked
   \<and> handleSubmit decimal_number
       (gala_form [tier ''General'' ''500'' ''100'', tier [] ''900'' ''20''])
       \<noteq> Posted (gala_payload [tier ''General'' ''500'' ''100''])"
  by (simp add: handleSubmit_def checkValidity_def tierValid_def gala_form_def tier_def)

text \<open>
  C4, amended. A submitted payload holds all tiers of the form, in form order, and these
  are exactly the form's tiers with a non-empty name, a numeric price and a numeric
  quantity of at least one; there is at least one. A form with a tier that fails this test
  is not submitted: the filter of the handler never has a tier to leave out.
\<close>

theorem submitted_tiers_are_the_valid_tiers:
  "(handleSubmit pn f = Posted payload \<longrightarrow>
      ed_tickets payload = ef_ticketTypes f
      \<and> (t \<in> set (ed_tickets payload) \<longleftrightarrow> t \<in> set (ef_ticketTypes f) \<and> spec_valid_tier pn t)
      \<and> ed_tickets payload \<noteq> [])
   \<and> (t2 \<in> set (ef_ticketTypes f2) \<and> \<not> spec_valid_tier pn2 t2 \<longrightarrow>
        handleSubmit pn2 f2 = Blocked)"
proof (intro conjI impI)
  assume p: "handleSubmit pn f = Posted payload"
  from handleSubmit_posted(1) [OF p] have all: "list_all (tierValid pn) (ef_ticketTypes f)"
    by (simp add: checkValidity_def)
  from handleSubmit_posted(3) [OF p] all_valid_all_filled [OF all]
  show eq: "ed_tickets payload = ef_ticketTypes f"
    by simp
  from all have "\<forall>x \<in> set (ef_ticketTypes f). spec_valid_tier pn x"
    by (auto simp: list_all_iff intro: tierValid_spec)
  then show "t \<in> set (ed_tickets payload) \<longleftrightarrow>
      t \<in> set (ef_ticketTypes f) \<and> spec_valid_tier pn t"
    unfolding eq by blast
  from handleSubmit_posted(2) [OF p] have "hasValidTicket (ef_ticketTypes f)"
    by (simp add: validateForm_def)
  then show "ed_tickets payload \<noteq> []"
    unfolding handleSubmit_posted(3) [OF p] hasValidTicket_iff .
next
  assume "t2 \<in> set (ef_ticketTypes f2) \<and> \<not> spec_valid_tier pn2 t2"
  then have "t2 \<in> set (ef_ticketTypes f2)" and "\<not> tierValid pn2 t2"
    using tierValid_spec by blast+
  then show "handleSubmit pn2 f2 = Blocked"
    by (rule invalid_tier_blocks)
qed

theorem submitted_tiers_are_the_valid_tiers_witness:
  "handleSubmit decimal_number
     (gala_form [tier ''General'' ''500'' ''100'', tier ''VIP'' ''900'' ''20''])
     = Posted (gala_payload [tier ''General'' ''500'' ''100'', tier ''VIP'' ''900'' ''20''])
   \<and> ed_tickets (gala_payload [tier ''General'' ''500'' ''100'', tier ''VIP'' ''900'' ''20''])
       = ef_ticketTypes (gala_form [tier ''General'' ''500'' ''100'', tier ''VIP'' ''900'' ''20''])
   \<and> spec_valid_tier decimal_number (tier ''VIP'' ''900'' ''20'')
   \<and> tier ''Crew'' ''0'' ''0'' \<in> set (ef_ticketTypes
         (gala_form [tier ''General'' ''500'' ''100'', tier ''Crew'' ''0'' ''0'']))
   \<and> \<not> spec_valid_tier decimal_number (tier ''Crew'' ''0'' ''0'')
   \<and> handleSubmit decimal_number
       (gala_form [tier ''General'' ''500'' ''100'', tier ''Crew'' ''0'' ''0'']) = Blocked"
proof -
  note T = submitted_tiers_are_the_valid_tiers
    [where pn = decimal_number
       and f = "gala_form [tier ''General'' ''500'' ''100'', tier ''VIP'' ''900'' ''20'']"
       and payload = "gala_payload [tier ''General'' ''500'' ''100'', tier ''VIP'' ''900'' ''20'']"
       and t = "tier ''VIP'' ''900'' ''20''"
       and ?pn2.0 = decimal_number
       and ?f2.0 = "gala_form [tier ''General'' ''500'' ''100'', tier ''Crew'' ''0'' ''0'']"
       and ?t2.0 = "tier ''Crew'' ''0'' ''0''"]
  note P = T [THEN conjunct1, THEN mp, OF two_valid_tiers_posted]
  have vin: "tier ''VIP'' ''900'' ''20''
      \<in> set (ed_tickets (gala_payload [tier ''General'' ''500'' ''100'', tier ''VIP'' ''900'' ''20'']))"
    by (simp add: gala_payload_def)
  from P [THEN conjunct2, THEN conjunct1] vin
  have sv: "spec_valid_tier decimal_number (tier ''VIP'' ''900'' ''20'')"
    by simp
  have cin: "tier ''Crew'' ''0'' ''0'' \<in> set (ef_ticketTypes
      (gala_form [tier ''General'' ''500'' ''100'', tier ''Crew'' ''0'' ''0'']))"
    by (simp add: gala_form_def)
  have z: "decimal_number ''0'' = Some 0"
    by (simp add: decimal_number_def decimal_value_def isDigit_def)
  have cn: "\<not> spec_valid_tier decimal_number (tier ''Crew'' ''0'' ''0'')"
    by (simp add: spec_valid_tier_def tier_def z)
  from cin cn have hyp: "tier ''Crew'' ''0'' ''0'' \<in> set (ef_ticketTypes
      (gala_form [tier ''General'' ''500'' ''100'', tier ''Crew'' ''0'' ''0'']))
      \<and> \<not> spec_valid_tier decimal_number (tier ''Crew'' ''0'' ''0'')"
    by (intro conjI)
  note B = T [THEN conjunct2, THEN mp, OF hyp]
  from two_valid_tiers_posted P [THEN conjunct1] sv cin cn B show ?thesis
    by (intro conjI)
qed

section \<open>Session store\<close>

lemma logout_clears_durable_tier:
  "localStorage (logout st) ''token'' = None \<and> localStorage (logout st) ''user'' = None
   \<and> defaults_common (logout st) ''Authorization'' = None
   \<and> auth_user (logout st) = None \<and> auth_token (logout st) = None
   \<and> sessionStorage (logout st) = sessionStorage st"
  by (simp add: logout_def)

text \<open>
  C3 at a concrete state: after a sign-in without "remember me" (credentials in
  \<open>sessionStorage\<close>), \<open>logout\<close> leaves the session-scoped token and user in place, and
  the next request still carries the bearer token.
\<close>

theorem logout_keeps_session_scoped_token:
  "sessionStorage (logout session_signed_in) ''token'' = Some ''tok123''
   \<and> sessionStorage (logout session_signed_in) ''user''
       = Some (example_stringify (example_user RoleOrganizer))
   \<and> rc_headers (outbound (logout session_signed_in) ''GET'' ''/events'' Map.empty)
        ''Authorization'' = Some ''Bearer tok123''"
  by (simp add: session_signed_in_def handleLogin_store_def logout_def initial_app_def
        outbound_def request_interceptor_def or_opt_def truthy_def)



text \<open>
  C8. With a non-empty token and a serialized user in \<open>localStorage\<close>, hydration loads
  the user and the token, sets the \<open>Authorization\<close> default header and ends loading,
  with no request or other effect. Without such a pair it only ends loading: user, token
  and headers stay as they were at process start.
\<close>

theorem hydration_from_durable_storage:
  "(localStorage st ''token'' = Some t \<and> t \<noteq> [] \<and> localStorage st ''user'' = Some su \<and>
    su \<noteq> [] \<and> parse su = Inr u \<longrightarrow>
      loadUserFromStorage parse st =
        Inr (st\<lparr>auth_user := Some u, auth_token := Some t,
                defaults_common := (defaults_common st)(''Authorization'' \<mapsto> ''Bearer '' @ t),
                auth_loading := False\<rparr>, []))
   \<and> (\<not> truthy (localStorage st2 ''token'') \<or> \<not> truthy (localStorage st2 ''user'') \<longrightarrow>
        loadUserFromStorage parse2 st2 = Inr (st2\<lparr>auth_loading := False\<rparr>, []))"
  by (auto simp: loadUserFromStorage_def truthy_def split: option.splits)

theorem hydration_from_durable_storage_witness:
  "durable_pair ''token'' = Some ''tok123'' \<and> ''tok123'' \<noteq> []
   \<and> example_parse (example_stringify (example_user RoleOrganizer))
       = Inr (example_user RoleOrganizer)
   \<and> loadUserFromStorage example_parse (initial_app durable_pair Map.empty) =
        Inr (\<lparr>localStorage = durable_pair, sessionStorage = Map.empty,
              defaults_common = [''Authorization'' \<mapsto> ''Bearer tok123''],
              auth_user = Some (example_user RoleOrganizer), auth_token = Some ''tok123'',
              auth_loading = False\<rparr>, [])
   \<and> \<not> truthy ((Map.empty :: storage) ''token'')
   \<and> loadUserFromStorage example_parse (initial_app Map.empty [''token'' \<mapsto> ''tok123'']) =
        Inr (\<lparr>localStorage = Map.empty, sessionStorage = [''token'' \<mapsto> ''tok123''],
              defaults_common = Map.empty, auth_user = None, auth_token = None,
              auth_loading = False\<rparr>, [])"
proof -
  have a: "localStorage (initial_app durable_pair Map.empty) ''token'' = Some ''tok123''"
    "localStorage (initial_app durable_pair Map.empty) ''user''
       = Some (example_stringify (example_user RoleOrganizer))"
    "durable_pair ''token'' = Some ''tok123''"
    by (simp_all add: initial_app_def durable_pair_def)
  have b: "example_stringify (example_user RoleOrganizer) \<noteq> []"
    by (simp add: example_stringify_def)
  have c: "example_parse (example_stringify (example_user RoleOrganizer))
      = Inr (example_user RoleOrganizer)"
    by (simp add: example_parse_def)
  have d: "\<not> truthy (localStorage (initial_app Map.empty [''token'' \<mapsto> ''tok123'']) ''token'')"
    "\<not> truthy ((Map.empty :: storage) ''token'')"
    by (simp_all add: initial_app_def truthy_def)
  from hydration_from_durable_storage
    [where st = "initial_app durable_pair Map.empty" and t = "''tok123''"
       and su = "example_stringify (example_user RoleOrganizer)" and parse = example_parse
       and u = "example_user RoleOrganizer"
       and ?st2.0 = "initial_app Map.empty [''token'' \<mapsto> ''tok123'']"
       and ?parse2.0 = example_parse]
  show ?thesis using a b c d
    by (simp add: initial_app_def)
qed

text \<open>
  C10. The request interceptor sets \<open>Authorization\<close> to \<open>Bearer\<close> and the token of
  \<open>localStorage\<close> when there is one, whatever \<open>sessionStorage\<close> holds; otherwise to
  \<open>Bearer\<close> and the token of \<open>sessionStorage\<close> when there is one; and it returns the
  configuration unchanged when neither holds a token. An empty text counts as no token.
\<close>

theorem request_interceptor_token_choice:
  "(localStorage st ''token'' = Some t \<and> t \<noteq> [] \<longrightarrow>
      request_interceptor st config =
        config\<lparr>rc_headers := (rc_headers config)(''Authorization'' \<mapsto> ''Bearer '' @ t)\<rparr>)
   \<and> (\<not> truthy (localStorage st2 ''token'') \<and> sessionStorage st2 ''token'' = Some s \<and> s \<noteq> [] \<longrightarrow>
        request_interceptor st2 config =
          config\<lparr>rc_headers := (rc_headers config)(''Authorization'' \<mapsto> ''Bearer '' @ s)\<rparr>)
   \<and> (\<not> truthy (localStorage st3 ''token'') \<and> \<not> truthy (sessionStorage st3 ''token'') \<longrightarrow>
        request_interceptor st3 config = config)"
  by (auto simp: request_interceptor_def or_opt_def truthy_def split: option.splits)

theorem request_interceptor_token_choice_witness:
  "rc_headers (request_interceptor
       (initial_app [''token'' \<mapsto> ''durable''] [''token'' \<mapsto> ''scoped'']) get_events)
     ''Authorization'' = Some ''Bearer durable''
   \<and> rc_headers (request_interceptor (initial_app Map.empty [''token'' \<mapsto> ''scoped'']) get_events)
       ''Authorization'' = Some ''Bearer scoped''
   \<and> request_interceptor (initial_app Map.empty Map.empty) get_events = get_events
   \<and> rc_headers get_events ''Authorization'' = None"
proof -
  have a: "localStorage (initial_app [''token'' \<mapsto> ''durable''] [''token'' \<mapsto> ''scoped'']) ''token''
      = Some ''durable''"
    by (simp add: initial_app_def)
  have b: "\<not> truthy (localStorage (initial_app Map.empty [''token'' \<mapsto> ''scoped'']) ''token'')"
    "sessionStorage (initial_app Map.empty [''token'' \<mapsto> ''scoped'']) ''token'' = Some ''scoped''"
    by (simp_all add: initial_app_def truthy_def)
  have c: "\<not> truthy (localStorage (initial_app Map.empty Map.empty) ''token'')"
    "\<not> truthy (sessionStorage (initial_app Map.empty Map.empty) ''token'')"
    by (simp_all add: initial_app_def truthy_def)
  have d: "rc_headers get_events ''Authorization'' = None"
    by (simp add: get_events_def)
  from request_interceptor_token_choice
    [where st = "initial_app [''token'' \<mapsto> ''durable''] [''token'' \<mapsto> ''scoped'']"
       and t = "''durable''" and config = get_events
       and ?st2.0 = "initial_app Map.empty [''token'' \<mapsto> ''scoped'']" and s = "''scoped''"
       and ?st3.0 = "initial_app Map.empty Map.empty"]
  show ?thesis using a b c d by simp
qed

end
